theory Spec2Isabelle
  imports Main "HOL-Library.Sublist" "HOL-Library.Multiset"
begin

section \<open>Profile actions and the auth provider of the dashboard\<close>

text \<open>
  The development embeds the two source files of the repository:
  \<^verbatim>\<open>src/app/actions/profile-actions.ts\<close> (server actions) and
  \<^verbatim>\<open>src/components/auth/auth-provider.tsx\<close> (client-side auth state).
  Both are glue around a hosted backend. The backend is not part of the repository, so
  every answer it gives is a parameter of the model (record \<open>remote\<close>), and what it
  stores is an explicit \<open>world\<close> that the handlers pass along. Every call to a
  collaborator is appended to a chronological trace of \<open>effect\<close>s.

  JavaScript strings are modelled by \<^typ>\<open>string\<close>, one \<^typ>\<open>char\<close> per code
  unit. A point in time is the number of milliseconds since the epoch; its rendering by
  \<^verbatim>\<open>toISOString\<close> is not modelled.
\<close>

subsection \<open>Strings\<close>

text \<open>\<^verbatim>\<open>String(n)\<close> for a non-negative integer, as a template literal renders it.\<close>

definition digit_char :: "nat \<Rightarrow> char" where
  "digit_char d = ''0123456789'' ! d"

function string_of_nat :: "nat \<Rightarrow> string" where
  "string_of_nat n =
     (if n < 10 then [digit_char n]
      else string_of_nat (n div 10) @ [digit_char (n mod 10)])"
  by pat_completeness auto
termination
  by (relation "measure (\<lambda>n. n)") auto

declare string_of_nat.simps [simp del]

text \<open>
  \<^verbatim>\<open>s.split(sep)\<close> for a one-character separator: the pieces between the
  separators, never an empty array.
\<close>

fun str_split :: "char \<Rightarrow> string \<Rightarrow> string list" where
  "str_split sep [] = [] # []"
| "str_split sep (c # cs) =
     (if c = sep then [] # str_split sep cs
      else (case str_split sep cs of
              [] \<Rightarrow> [c] # []
            | piece # pieces \<Rightarrow> (c # piece) # pieces))"

text \<open>\<^verbatim>\<open>Array.prototype.pop\<close>: the last element, \<^verbatim>\<open>undefined\<close> on an empty array.\<close>

fun pop :: "'a list \<Rightarrow> 'a option" where
  "pop [] = None"
| "pop [x] = Some x"
| "pop (x # y # ys) = pop (y # ys)"

text \<open>A \<^verbatim>\<open>string | undefined\<close> inside a template literal.\<close>

fun template_str :: "string option \<Rightarrow> string" where
  "template_str None = ''undefined''"
| "template_str (Some s) = s"

text \<open>\<^verbatim>\<open>toLowerCase\<close> on the ASCII letters; every other character is kept.\<close>

definition lower_char :: "char \<Rightarrow> char" where
  "lower_char c =
     (case map_of (zip ''ABCDEFGHIJKLMNOPQRSTUVWXYZ'' ''abcdefghijklmnopqrstuvwxyz'') c of
        None \<Rightarrow> c
      | Some l \<Rightarrow> l)"

definition toLowerCase :: "string \<Rightarrow> string" where
  "toLowerCase s = map lower_char s"

text \<open>\<^verbatim>\<open>s.startsWith(p)\<close> and \<^verbatim>\<open>s.includes(q)\<close>.\<close>

definition startsWith :: "string \<Rightarrow> string \<Rightarrow> bool" where
  "startsWith s p = prefix p s"

fun str_includes :: "string \<Rightarrow> string \<Rightarrow> bool" where
  "str_includes [] q = (q = [])"
| "str_includes (c # cs) q = (prefix q (c # cs) \<or> str_includes cs q)"

subsection \<open>Data\<close>

type_synonym timestamp = nat

record user =
  user_id :: string
  user_email :: string
  user_display_name :: "string option"

record profile =
  p_id :: string
  p_display_name :: string
  p_avatar_url :: "string option"
  p_email :: string
  p_created_at :: timestamp
  p_updated_at :: timestamp

record connected_account =
  acc_id :: string
  acc_user_id :: string
  acc_created_at :: timestamp

record blob =
  file_name :: string
  file_size :: nat
  file_type :: string

text \<open>The two patches the actions send to the \<^verbatim>\<open>profiles\<close> table.\<close>

datatype patch =
    DisplayNamePatch string timestamp
  | AvatarPatch string timestamp

text \<open>Every call that leaves the handler, in the order the handler makes it.\<close>

datatype effect =
    AuthGetUser
  | ProfilesUpdate patch string
  | StorageUpload string string blob
  | StorageGetPublicUrl string string
  | StorageRemove string "string list"
  | AccountsSelect string
  | RevalidatePath string
  | ConsoleError string

text \<open>
  What the backend answers during one request. \<open>clock k\<close> is the \<open>k\<close>-th reading of
  the system clock in the request, counted from 0.
\<close>

record remote =
  auth_user :: "user option"
  update_error :: "string option"
  upload_error :: "string option"
  public_url :: "string \<Rightarrow> string \<Rightarrow> string option"
  remove_error :: "string option"
  select_error :: "string option"
  clock :: "nat \<Rightarrow> timestamp"

text \<open>What the backend stores, and the trace of calls made so far.\<close>

record world =
  objects :: "string \<times> string \<rightharpoonup> blob"
  profiles :: "string \<rightharpoonup> profile"
  accounts :: "connected_account list"
  effects :: "effect list"

definition emit :: "effect \<Rightarrow> world \<Rightarrow> world" where
  "emit e w = w\<lparr>effects := effects w @ [e]\<rparr>"

subsection \<open>The collaborators\<close>

text \<open>
  Each collaborator call records itself in the trace and, when the backend reports no
  error, changes the store the way the call asks for. A call that reports an error
  leaves the store as it was.
\<close>

definition auth_getUser :: "remote \<Rightarrow> world \<Rightarrow> user option \<times> world" where
  "auth_getUser r w = (auth_user r, emit AuthGetUser w)"

fun apply_patch :: "patch \<Rightarrow> profile \<Rightarrow> profile" where
  "apply_patch (DisplayNamePatch name t) p = p\<lparr>p_display_name := name, p_updated_at := t\<rparr>"
| "apply_patch (AvatarPatch url t) p = p\<lparr>p_avatar_url := Some url, p_updated_at := t\<rparr>"

definition from_profiles_update ::
  "remote \<Rightarrow> patch \<Rightarrow> string \<Rightarrow> world \<Rightarrow> string option \<times> world" where
  "from_profiles_update r pt uid w =
     (case update_error r of
        Some msg \<Rightarrow> (Some msg, emit (ProfilesUpdate pt uid) w)
      | None \<Rightarrow>
          (None,
           emit (ProfilesUpdate pt uid)
             (w\<lparr>profiles :=
                  (case profiles w uid of
                     None \<Rightarrow> profiles w
                   | Some p \<Rightarrow> (profiles w)(uid \<mapsto> apply_patch pt p))\<rparr>)))"

definition storage_upload ::
  "remote \<Rightarrow> string \<Rightarrow> string \<Rightarrow> blob \<Rightarrow> world \<Rightarrow> string option \<times> world" where
  "storage_upload r bucket path f w =
     (case upload_error r of
        Some msg \<Rightarrow> (Some msg, emit (StorageUpload bucket path f) w)
      | None \<Rightarrow>
          (None,
           emit (StorageUpload bucket path f)
             (w\<lparr>objects := (objects w)((bucket, path) \<mapsto> f)\<rparr>)))"

definition storage_getPublicUrl ::
  "remote \<Rightarrow> string \<Rightarrow> string \<Rightarrow> world \<Rightarrow> string option \<times> world" where
  "storage_getPublicUrl r bucket path w =
     (public_url r bucket path, emit (StorageGetPublicUrl bucket path) w)"

fun remove_keys :: "string \<Rightarrow> string list \<Rightarrow> (string \<times> string \<rightharpoonup> blob) \<Rightarrow> (string \<times> string \<rightharpoonup> blob)" where
  "remove_keys bucket [] m = m"
| "remove_keys bucket (k # ks) m = remove_keys bucket ks (m((bucket, k) := None))"

definition storage_remove ::
  "remote \<Rightarrow> string \<Rightarrow> string list \<Rightarrow> world \<Rightarrow> string option \<times> world" where
  "storage_remove r bucket paths w =
     (case remove_error r of
        Some msg \<Rightarrow> (Some msg, emit (StorageRemove bucket paths) w)
      | None \<Rightarrow>
          (None,
           emit (StorageRemove bucket paths)
             (w\<lparr>objects := remove_keys bucket paths (objects w)\<rparr>)))"

definition revalidatePath :: "string \<Rightarrow> world \<Rightarrow> world" where
  "revalidatePath path w = emit (RevalidatePath path) w"

definition console_error :: "string \<Rightarrow> world \<Rightarrow> world" where
  "console_error label w = emit (ConsoleError label) w"

subsection \<open>Results of the actions\<close>

text \<open>
  The actions return \<^verbatim>\<open>{ error }\<close>, \<^verbatim>\<open>{ message }\<close> or
  \<^verbatim>\<open>{ message, avatarUrl }\<close>.
\<close>

datatype action_result =
    Error string
  | Message string
  | MessageAvatar string string

text \<open>
  A \<^verbatim>\<open>string | null | undefined\<close> is falsy when it is absent or the empty
  string; \<open>truthy\<close> hands out the string the test \<^verbatim>\<open>if (!x)\<close> lets through.
\<close>

fun truthy :: "string option \<Rightarrow> string option" where
  "truthy None = None"
| "truthy (Some s) = (if s = [] then None else Some s)"

subsection \<open>updateProfile\<close>

definition updateProfile :: "remote \<Rightarrow> string option \<Rightarrow> world \<Rightarrow> action_result \<times> world" where
  "updateProfile r displayName w0 =
     (case auth_getUser r w0 of (usr, w1) \<Rightarrow>
      (case usr of
         None \<Rightarrow> (Error ''User not authenticated'', w1)
       | Some u \<Rightarrow>
           (case truthy displayName of
              None \<Rightarrow> (Error ''Display name must be between 1 and 32 characters'', w1)
            | Some name \<Rightarrow>
                if length name = 0 \<or> length name > 32
                then (Error ''Display name must be between 1 and 32 characters'', w1)
                else
                  (case from_profiles_update r (DisplayNamePatch name (clock r 0)) (user_id u) w1 of
                     (Some msg, w2) \<Rightarrow>
                       (Error (''Failed to update profile. '' @ msg),
                        console_error ''Error updating profile:'' w2)
                   | (None, w2) \<Rightarrow>
                       (Message ''Profile updated successfully'',
                        revalidatePath ''/dashboard'' (revalidatePath ''/settings'' w2))))))"

subsection \<open>uploadAvatar\<close>

definition uploadAvatar :: "remote \<Rightarrow> blob option \<Rightarrow> world \<Rightarrow> action_result \<times> world" where
  "uploadAvatar r avatar w0 =
     (case auth_getUser r w0 of (usr, w1) \<Rightarrow>
      (case usr of
         None \<Rightarrow> (Error ''User not authenticated'', w1)
       | Some u \<Rightarrow>
           (case avatar of
              None \<Rightarrow> (Error ''No file selected'', w1)
            | Some f \<Rightarrow>
                if file_size f = 0 then (Error ''No file selected'', w1)
                else if file_size f > 2 * 1024 * 1024
                then (Error ''File size must be less than 2MB'', w1)
                else if \<not> startsWith (file_type f) ''image/''
                then (Error ''File must be an image'', w1)
                else
                  (let fileExtension = pop (str_split (CHR ''.'') (file_name f));
                       fileName = user_id u @ ''-'' @ string_of_nat (clock r 0) @ ''.''
                                    @ template_str fileExtension;
                       filePath = ''avatars/'' @ fileName
                   in case storage_upload r ''avatars'' filePath f w1 of
                        (Some msg, w2) \<Rightarrow>
                          (Error (''Failed to upload avatar. '' @ msg),
                           console_error ''Error uploading avatar:'' w2)
                      | (None, w2) \<Rightarrow>
                          (case storage_getPublicUrl r ''avatars'' filePath w2 of
                             (publicUrl, w3) \<Rightarrow>
                               (case truthy publicUrl of
                                  None \<Rightarrow>
                                    (Error ''Failed to get avatar URL.'',
                                     console_error ''Error getting public URL for avatar'' w3)
                                | Some url \<Rightarrow>
                                    (case from_profiles_update r
                                            (AvatarPatch url (clock r 1)) (user_id u) w3 of
                                       (Some msg, w4) \<Rightarrow>
                                         (case storage_remove r ''avatars'' [filePath]
                                                 (console_error
                                                    ''Error updating avatar URL in profile:'' w4) of
                                            (_, w5) \<Rightarrow>
                                              (Error (''Failed to update profile with new avatar. ''
                                                        @ msg), w5))
                                     | (None, w4) \<Rightarrow>
                                         (MessageAvatar ''Avatar updated successfully'' url,
                                          revalidatePath ''/dashboard''
                                            (revalidatePath ''/settings'' w4)))))))))"

subsection \<open>getConnectedAccounts\<close>

text \<open>
  The query the action sends is \<^verbatim>\<open>select * from connected_accounts where
  user_id = uid order by created_at asc\<close>. The row store answers it with the rows of that
  user in ascending order of creation (a stable sort), or with an error and no data.
\<close>

definition from_connected_accounts_select ::
  "remote \<Rightarrow> string \<Rightarrow> world
     \<Rightarrow> (connected_account list option \<times> string option) \<times> world" where
  "from_connected_accounts_select r uid w =
     (case select_error r of
        Some msg \<Rightarrow> ((None, Some msg), emit (AccountsSelect uid) w)
      | None \<Rightarrow>
          ((Some (sort_key acc_created_at (filter (\<lambda>a. acc_user_id a = uid) (accounts w))),
            None),
           emit (AccountsSelect uid) w))"

record accounts_result =
  res_error :: "string option"
  res_accounts :: "connected_account list"

definition getConnectedAccounts :: "remote \<Rightarrow> world \<Rightarrow> accounts_result \<times> world" where
  "getConnectedAccounts r w0 =
     (case auth_getUser r w0 of (usr, w1) \<Rightarrow>
      (case usr of
         None \<Rightarrow> (\<lparr>res_error = Some ''User not authenticated'', res_accounts = []\<rparr>, w1)
       | Some u \<Rightarrow>
           (case from_connected_accounts_select r (user_id u) w1 of
              ((_, Some msg), w2) \<Rightarrow>
                (\<lparr>res_error = Some (''Failed to fetch connected accounts. '' @ msg),
                  res_accounts = []\<rparr>,
                 console_error ''Error fetching connected accounts:'' w2)
            | ((data, None), w2) \<Rightarrow>
                (\<lparr>res_error = None,
                  res_accounts = (case data of None \<Rightarrow> [] | Some rows \<Rightarrow> rows)\<rparr>, w2))))"

subsection \<open>searchActivity\<close>

record activity =
  act_id :: string
  act_title :: string
  act_description :: string
  act_type :: string
  act_created_at :: int

definition mockResults :: "(nat \<Rightarrow> timestamp) \<Rightarrow> activity list" where
  "mockResults clk =
     [\<lparr>act_id = ''1'',
       act_title = ''QueueCX Integration Setup'',
       act_description = ''Configured QueueCX integration with production environment'',
       act_type = ''session'',
       act_created_at = int (clk 0)\<rparr>,
      \<lparr>act_id = ''2'',
       act_title = ''Environment Aware Configuration'',
       act_description = ''Updated environment awareness settings for better monitoring'',
       act_type = ''document'',
       act_created_at = int (clk 1) - 86400000\<rparr>,
      \<lparr>act_id = ''3'',
       act_title = ''Fluidity Index Analysis'',
       act_description = ''Analyzed system fluidity metrics and performance indicators'',
       act_type = ''meeting'',
       act_created_at = int (clk 2) - 172800000\<rparr>]"

definition searchActivity :: "(nat \<Rightarrow> timestamp) \<Rightarrow> string \<Rightarrow> activity list" where
  "searchActivity clk query =
     (if query = [] then mockResults clk
      else filter
             (\<lambda>item. str_includes (toLowerCase (act_title item)) (toLowerCase query)
                    \<or> str_includes (toLowerCase (act_description item)) (toLowerCase query))
             (mockResults clk))"

subsection \<open>The auth provider\<close>

text \<open>
  The provider keeps three pieces of React state, \<^verbatim>\<open>user\<close>,
  \<^verbatim>\<open>session\<close> and \<^verbatim>\<open>loading\<close>. Its callbacks run on one event loop:
  a callback runs without interruption up to its next \<^verbatim>\<open>await\<close>, and the rest of
  it runs when the awaited answer arrives. The model therefore has one event for each
  point at which the event loop enters the provider's code, and keeps the suspended calls
  of \<^verbatim>\<open>updateUserProfile\<close> in the state.
\<close>

record identity =
  id_user :: user
  id_profile :: "profile option"

record session =
  session_user :: user
  access_token :: string

text \<open>
  \<open>configured\<close> is \<^verbatim>\<open>isSupabaseConfigured()\<close>, \<open>has_client\<close> says that
  \<^verbatim>\<open>getSupabaseClient()\<close> is not null.
\<close>

record config =
  configured :: bool
  has_client :: bool

definition demo_mode :: "config \<Rightarrow> bool" where
  "demo_mode c = (\<not> configured c \<or> \<not> has_client c)"

text \<open>The answer of the row store to the \<^verbatim>\<open>single()\<close> query for a profile.\<close>

record fetch_response =
  fr_data :: "profile option"
  fr_error :: "string option"

definition fetchUserProfile :: "config \<Rightarrow> fetch_response \<Rightarrow> profile option" where
  "fetchUserProfile c resp =
     (if \<not> has_client c then None
      else (case fr_error resp of Some msg \<Rightarrow> None | None \<Rightarrow> fr_data resp))"

text \<open>
  Where the current value of \<^verbatim>\<open>user\<close> comes from: no write yet, a write that
  followed no profile fetch, or a write that followed a profile fetch (with the answer to
  that fetch). The field \<open>m_origin\<close> below is a history variable: the source does not
  store it, and no transition reads it.
\<close>

datatype origin = Initial | NoFetch | Fetch fetch_response

record mirror =
  m_user :: "identity option"
  m_session :: "session option"
  m_loading :: bool
  mounted :: bool
  pending_sessions :: nat
  subscribed :: bool
  fetching :: "user list"
  m_origin :: origin

definition init :: mirror where
  "init = \<lparr>m_user = None, m_session = None, m_loading = True, mounted = False,
           pending_sessions = 0, subscribed = False, fetching = [], m_origin = Initial\<rparr>"

definition setUser :: "identity option \<Rightarrow> origin \<Rightarrow> mirror \<Rightarrow> mirror" where
  "setUser i og s = s\<lparr>m_user := i, m_origin := og\<rparr>"

definition setSession :: "session option \<Rightarrow> mirror \<Rightarrow> mirror" where
  "setSession ss s = s\<lparr>m_session := ss\<rparr>"

definition setLoading :: "bool \<Rightarrow> mirror \<Rightarrow> mirror" where
  "setLoading b s = s\<lparr>m_loading := b\<rparr>"

definition demo_user :: "timestamp \<Rightarrow> timestamp \<Rightarrow> identity" where
  "demo_user t1 t2 =
     \<lparr>id_user = \<lparr>user_id = ''demo-user'', user_email = ''demo@queuecx.com'',
                  user_display_name = Some ''Demo User''\<rparr>,
      id_profile = Some \<lparr>p_id = ''demo-user'', p_display_name = ''Demo User'',
                         p_avatar_url = None, p_email = ''demo@queuecx.com'',
                         p_created_at = t1, p_updated_at = t2\<rparr>\<rparr>"

text \<open>The effect of \<^verbatim>\<open>useEffect\<close>; in demo mode it reads the clock twice.\<close>

definition mount :: "config \<Rightarrow> timestamp \<Rightarrow> timestamp \<Rightarrow> mirror \<Rightarrow> mirror" where
  "mount c t1 t2 s =
     (if demo_mode c
      then setLoading False (setUser (Some (demo_user t1 t2)) NoFetch (s\<lparr>mounted := True\<rparr>))
      else s\<lparr>mounted := True, pending_sessions := Suc (pending_sessions s),
              subscribed := True\<rparr>)"

text \<open>
  \<^verbatim>\<open>updateUserProfile\<close> up to its \<^verbatim>\<open>await\<close>: without a user it finishes at
  once, with a user it is suspended until the profile fetch answers.
\<close>

definition updateUserProfile_start :: "user option \<Rightarrow> mirror \<Rightarrow> mirror" where
  "updateUserProfile_start authUser s =
     (case authUser of
        Some u \<Rightarrow> s\<lparr>fetching := fetching s @ [u]\<rparr>
      | None \<Rightarrow> setLoading False (setUser None NoFetch s))"

text \<open>\<^verbatim>\<open>updateUserProfile\<close> after its \<^verbatim>\<open>await\<close>.\<close>

definition updateUserProfile_resume ::
  "config \<Rightarrow> user \<Rightarrow> fetch_response \<Rightarrow> mirror \<Rightarrow> mirror" where
  "updateUserProfile_resume c u resp s =
     (let profile = fetchUserProfile c resp
      in setLoading False
           (setUser (Some \<lparr>id_user = u, id_profile = profile\<rparr>) (Fetch resp) s))"

text \<open>
  The callback of \<^verbatim>\<open>getSession().then\<close> and the callback of
  \<^verbatim>\<open>onAuthStateChange\<close> have the same body.
\<close>

definition on_session :: "session option \<Rightarrow> mirror \<Rightarrow> mirror" where
  "on_session ss s = updateUserProfile_start (map_option session_user ss) (setSession ss s)"

fun first :: "'a list \<Rightarrow> 'a option" where
  "first [] = None"
| "first (x # xs) = Some x"

definition local_user :: "string \<Rightarrow> identity" where
  "local_user email =
     \<lparr>id_user = \<lparr>user_id = ''demo-user'', user_email = email,
                  user_display_name = first (str_split (CHR ''@'') email)\<rparr>,
      id_profile = None\<rparr>"

text \<open>
  \<open>signIn\<close> and \<open>signUp\<close> return the \<^verbatim>\<open>error\<close> field of their result; in
  configured mode that is the message of the error the auth service answered, if any.
\<close>

definition signIn ::
  "config \<Rightarrow> string \<Rightarrow> string \<Rightarrow> string option \<Rightarrow> mirror \<Rightarrow> string option \<times> mirror" where
  "signIn c email password remote_err s =
     (if demo_mode c then (None, setUser (Some (local_user email)) NoFetch s)
      else (remote_err, s))"

definition signUp ::
  "config \<Rightarrow> string \<Rightarrow> string \<Rightarrow> string option \<Rightarrow> mirror \<Rightarrow> string option \<times> mirror" where
  "signUp c email password remote_err s =
     (if demo_mode c then (None, setUser (Some (local_user email)) NoFetch s)
      else (remote_err, s))"

definition signOut :: "config \<Rightarrow> mirror \<Rightarrow> mirror" where
  "signOut c s = (if demo_mode c then setSession None (setUser None NoFetch s) else s)"

text \<open>The cleanup of the effect: \<^verbatim>\<open>subscription.unsubscribe()\<close>.\<close>

definition unmount :: "mirror \<Rightarrow> mirror" where
  "unmount s = s\<lparr>mounted := False, subscribed := False\<rparr>"

datatype event =
    Mount timestamp timestamp
  | SessionResolved "session option"
  | AuthStateChange "session option"
  | ProfileFetched nat fetch_response
  | SignIn string string "string option"
  | SignUp string string "string option"
  | SignOut
  | Unmount

text \<open>
  One turn of the event loop. \<open>None\<close> means that the event cannot happen in this state:
  the effect runs on a provider that is not mounted, a promise resolves only while it is
  outstanding, the subscription delivers only while it exists, and a profile fetch answers
  only a suspended call.
\<close>

fun step :: "config \<Rightarrow> event \<Rightarrow> mirror \<Rightarrow> mirror option" where
  "step c (Mount t1 t2) s = (if mounted s then None else Some (mount c t1 t2 s))"
| "step c (SessionResolved ss) s =
     (if pending_sessions s = 0 then None
      else Some (on_session ss (s\<lparr>pending_sessions := pending_sessions s - 1\<rparr>)))"
| "step c (AuthStateChange ss) s =
     (if subscribed s then Some (on_session ss s) else None)"
| "step c (ProfileFetched k resp) s =
     (if k < length (fetching s)
      then Some (updateUserProfile_resume c (fetching s ! k) resp
                   (s\<lparr>fetching := take k (fetching s) @ drop (Suc k) (fetching s)\<rparr>))
      else None)"
| "step c (SignIn email password err) s = Some (snd (signIn c email password err s))"
| "step c (SignUp email password err) s = Some (snd (signUp c email password err s))"
| "step c SignOut s = Some (signOut c s)"
| "step c Unmount s = (if mounted s then Some (unmount s) else None)"

fun run :: "config \<Rightarrow> event list \<Rightarrow> mirror \<Rightarrow> mirror option" where
  "run c [] s = Some s"
| "run c (e # es) s = (case step c e s of None \<Rightarrow> None | Some s' \<Rightarrow> run c es s')"

subsection \<open>Properties in the words of the specification\<close>

text \<open>
  The display-name constraint: the name is present and its length lies in \<open>[1, 32]\<close>.
\<close>

definition name_violation :: "string option \<Rightarrow> bool" where
  "name_violation displayName =
     (case displayName of None \<Rightarrow> True | Some name \<Rightarrow> length name = 0 \<or> 32 < length name)"

text \<open>
  \<open>q\<close> occurs in \<open>t\<close> as a case-insensitive substring: some contiguous piece of
  \<open>t\<close> equals \<open>q\<close> up to the case of its letters.
\<close>

definition ci_substring :: "string \<Rightarrow> string \<Rightarrow> bool" where
  "ci_substring q t =
     (\<exists>before piece after. t = before @ piece @ after \<and> toLowerCase piece = toLowerCase q)"

text \<open>The part of a file name after its last dot (the whole name when it has no dot).\<close>

definition after_last_dot :: "string \<Rightarrow> string" where
  "after_last_dot name = rev (takeWhile (\<lambda>c. c \<noteq> CHR ''.'') (rev name))"

text \<open>
  The storage key in the words of the specification: the identity id, a hyphen, the time
  in milliseconds, a dot, and the extension of the original file name.
\<close>

definition storage_key :: "string \<Rightarrow> timestamp \<Rightarrow> string \<Rightarrow> string" where
  "storage_key identityId currentTimeMillis name =
     identityId @ ''-'' @ string_of_nat currentTimeMillis @ ''.'' @ after_last_dot name"

text \<open>The path the action uploads to: the folder \<^verbatim>\<open>avatars/\<close>, then that key.\<close>

definition avatar_path :: "string \<Rightarrow> timestamp \<Rightarrow> string \<Rightarrow> string" where
  "avatar_path identityId currentTimeMillis name =
     ''avatars/'' @ storage_key identityId currentTimeMillis name"

text \<open>The three constraints on the uploaded file, all satisfied.\<close>

definition valid_avatar :: "blob \<Rightarrow> bool" where
  "valid_avatar f =
     (0 < file_size f \<and> file_size f \<le> 2 * 1024 * 1024 \<and> prefix ''image/'' (file_type f))"

text \<open>The effects a handler added to the trace of the world it started from.\<close>

definition new_effects :: "world \<Rightarrow> world \<Rightarrow> effect list" where
  "new_effects w w' = drop (length (effects w)) (effects w')"

fun is_remove :: "effect \<Rightarrow> bool" where
  "is_remove (StorageRemove bucket paths) = True"
| "is_remove e = False"

text \<open>The effects that write to the backend or invalidate a view.\<close>

fun writes_or_invalidates :: "effect \<Rightarrow> bool" where
  "writes_or_invalidates (ProfilesUpdate pt uid) = True"
| "writes_or_invalidates (StorageUpload bucket path f) = True"
| "writes_or_invalidates (StorageRemove bucket paths) = True"
| "writes_or_invalidates (RevalidatePath path) = True"
| "writes_or_invalidates AuthGetUser = False"
| "writes_or_invalidates (StorageGetPublicUrl bucket path) = False"
| "writes_or_invalidates (AccountsSelect uid) = False"
| "writes_or_invalidates (ConsoleError label) = False"

text \<open>The events at which a run of \<^verbatim>\<open>updateUserProfile\<close> reaches its end.\<close>

fun completes :: "event \<Rightarrow> bool" where
  "completes (ProfileFetched k resp) = True"
| "completes (SessionResolved None) = True"
| "completes (AuthStateChange None) = True"
| "completes e = False"

text \<open>A profile fetch succeeded: the row store reported no error and returned a row.\<close>

definition fetch_succeeded :: "fetch_response \<Rightarrow> bool" where
  "fetch_succeeded resp = (fr_error resp = None \<and> fr_data resp \<noteq> None)"

definition profile_present :: "mirror \<Rightarrow> bool" where
  "profile_present s = (case m_user s of None \<Rightarrow> False | Some i \<Rightarrow> id_profile i \<noteq> None)"

text \<open>
  The invariant of the provider. In unconfigured mode nothing is ever outstanding and no
  identity comes from a fetch. Before the first write the identity is null. In configured
  mode a write without a fetch writes null. A write after a fetch writes an identity whose
  profile is the fetched row when the fetch succeeded and is absent otherwise.
\<close>

definition mirror_inv :: "config \<Rightarrow> mirror \<Rightarrow> bool" where
  "mirror_inv c s =
     ((demo_mode c \<longrightarrow> fetching s = [] \<and> pending_sessions s = 0 \<and> \<not> subscribed s
                        \<and> (\<forall>resp. m_origin s \<noteq> Fetch resp))
      \<and> (m_origin s = Initial \<longrightarrow> m_user s = None)
      \<and> (\<not> demo_mode c \<and> m_origin s = NoFetch \<longrightarrow> m_user s = None)
      \<and> (\<forall>resp. m_origin s = Fetch resp \<longrightarrow>
            (\<exists>u. m_user s =
                   Some \<lparr>id_user = u,
                         id_profile = (if fetch_succeeded resp then fr_data resp else None)\<rparr>)))"

subsection \<open>Concrete inputs\<close>

definition alice :: user where
  "alice = \<lparr>user_id = ''u1'', user_email = ''alice@example.com'', user_display_name = None\<rparr>"

definition png :: blob where
  "png = \<lparr>file_name = ''me.png'', file_size = 2 * 1024 * 1024, file_type = ''image/png''\<rparr>"

definition empty_world :: world where
  "empty_world = \<lparr>objects = Map.empty, profiles = Map.empty, accounts = [], effects = []\<rparr>"

text \<open>A backend that answers every call without error, at time 1234.\<close>

definition good_remote :: remote where
  "good_remote =
     \<lparr>auth_user = Some alice, update_error = None, upload_error = None,
      public_url = (\<lambda>bucket path. Some (''https://cdn/'' @ bucket @ ''/'' @ path)),
      remove_error = None, select_error = None, clock = (\<lambda>k. 1234)\<rparr>"

definition alice_profile :: profile where
  "alice_profile =
     \<lparr>p_id = ''u1'', p_display_name = ''Alice'', p_avatar_url = None,
      p_email = ''alice@example.com'', p_created_at = 1000, p_updated_at = 1000\<rparr>"

definition alice_world :: world where
  "alice_world = empty_world\<lparr>profiles := [''u1'' \<mapsto> alice_profile]\<rparr>"

definition three_accounts :: "connected_account list" where
  "three_accounts =
     [\<lparr>acc_id = ''a'', acc_user_id = ''u1'', acc_created_at = 30\<rparr>,
      \<lparr>acc_id = ''b'', acc_user_id = ''u2'', acc_created_at = 10\<rparr>,
      \<lparr>acc_id = ''c'', acc_user_id = ''u1'', acc_created_at = 20\<rparr>]"

definition live_config :: config where
  "live_config = \<lparr>configured = True, has_client = True\<rparr>"

definition demo_config :: config where
  "demo_config = \<lparr>configured = False, has_client = False\<rparr>"

definition alice_session :: session where
  "alice_session = \<lparr>session_user = alice, access_token = ''token''\<rparr>"

definition failed_fetch :: fetch_response where
  "failed_fetch = \<lparr>fr_data = None, fr_error = Some ''timeout''\<rparr>"

definition good_fetch :: fetch_response where
  "good_fetch = \<lparr>fr_data = Some alice_profile, fr_error = None\<rparr>"

text \<open>
  Configured mode after mount, the initial session of \<open>alice\<close> and the answer to her
  profile fetch.
\<close>

definition alice_events :: "event list" where
  "alice_events = [Mount 1 2, SessionResolved (Some alice_session), ProfileFetched 0 good_fetch]"

definition alice_mirror :: mirror where
  "alice_mirror =
     \<lparr>m_user = Some \<lparr>id_user = alice, id_profile = Some alice_profile\<rparr>,
      m_session = Some alice_session, m_loading = False, mounted = True,
      pending_sessions = 0, subscribed = True, fetching = [], m_origin = Fetch good_fetch\<rparr>"

text \<open>
  Configured mode after mount and one session-change event without a session, delivered
  while the initial \<^verbatim>\<open>getSession()\<close> is still outstanding.
\<close>

definition early_events :: "event list" where
  "early_events = [Mount 1 2, AuthStateChange None]"

definition early_mirror :: mirror where
  "early_mirror =
     \<lparr>m_user = None, m_session = None, m_loading = False, mounted = True,
      pending_sessions = 1, subscribed = True, fetching = [], m_origin = NoFetch\<rparr>"

text \<open>Configured mode when the profile fetch for the initial session of \<open>alice\<close> fails.\<close>

definition orphan_events :: "event list" where
  "orphan_events =
     [Mount 1 2, SessionResolved (Some alice_session), ProfileFetched 0 failed_fetch]"

definition orphan_mirror :: mirror where
  "orphan_mirror =
     \<lparr>m_user = Some \<lparr>id_user = alice, id_profile = None\<rparr>,
      m_session = Some alice_session, m_loading = False, mounted = True,
      pending_sessions = 0, subscribed = True, fetching = [], m_origin = Fetch failed_fetch\<rparr>"

text \<open>Unconfigured mode after mount.\<close>

definition demo_mirror :: mirror where
  "demo_mirror =
     \<lparr>m_user = Some (demo_user 1 2), m_session = None, m_loading = False, mounted = True,
      pending_sessions = 0, subscribed = False, fetching = [], m_origin = NoFetch\<rparr>"


section \<open>Verification\<close>

subsection \<open>Auxiliary facts\<close>

lemmas collab_defs = auth_getUser_def from_profiles_update_def storage_upload_def
  storage_getPublicUrl_def storage_remove_def revalidatePath_def console_error_def emit_def

lemmas fixture_defs = good_remote_def alice_def png_def empty_world_def alice_world_def
  alice_profile_def

subsection \<open>updateProfile\<close>

text \<open>
  Claim C2, as amended. When the display name violates the constraint (absent, empty or
  longer than 32), \<open>updateProfile\<close> makes exactly one call, the lookup of the caller's
  identity, and nothing else: no write to the row store and no view invalidation. An
  authenticated caller gets the validation message; an unauthenticated caller gets
  \<open>User not authenticated\<close>, because the identity is resolved before the name is
  looked at.
\<close>

theorem updateProfile_rejects_invalid_name:
  assumes "name_violation displayName"
  shows "updateProfile r displayName w =
           ((case auth_user r of
               None \<Rightarrow> Error ''User not authenticated''
             | Some u \<Rightarrow> Error ''Display name must be between 1 and 32 characters''),
            emit AuthGetUser w)"
proof (cases displayName)
  case None
  then show ?thesis
    by (simp add: updateProfile_def auth_getUser_def split: option.splits)
next
  case (Some name)
  with assms have "length name = 0 \<or> 32 < length name"
    by (simp add: name_violation_def)
  with Some show ?thesis
    by (auto simp: updateProfile_def auth_getUser_def split: option.splits)
qed

theorem updateProfile_rejects_invalid_name_witness:
  "name_violation (Some '''') \<and>
   updateProfile good_remote (Some '''') empty_world =
     (Error ''Display name must be between 1 and 32 characters'', emit AuthGetUser empty_world)"
  using updateProfile_rejects_invalid_name [of "Some ''''" good_remote empty_world]
  by (simp add: name_violation_def good_remote_def)

text \<open>
  Claim C2 as stated fails: for an unauthenticated caller and an absent display name the
  result is the authentication error, not the validation error, and the identity lookup
  has been made.
\<close>

theorem updateProfile_unauthenticated_counterexample:
  "name_violation None \<and>
   fst (updateProfile (good_remote\<lparr>auth_user := None\<rparr>) None empty_world)
     = Error ''User not authenticated'' \<and>
   fst (updateProfile (good_remote\<lparr>auth_user := None\<rparr>) None empty_world)
     \<noteq> Error ''Display name must be between 1 and 32 characters'' \<and>
   effects (snd (updateProfile (good_remote\<lparr>auth_user := None\<rparr>) None empty_world))
     = [AuthGetUser]"
  by (simp add: name_violation_def updateProfile_def auth_getUser_def emit_def
      good_remote_def empty_world_def)

text \<open>
  Claim C5. For an authenticated caller, a display name of length 0 or 33 is rejected with
  the validation message and nothing but the identity lookup happens. A display name of
  length 1 or 32 is accepted: the next call is the update of the \<^verbatim>\<open>profiles\<close> row
  keyed by the caller's id, carrying the name and the current time, and when the row store
  reports no error the action answers with the success message and the caller's row holds
  the new name and timestamp.
\<close>

theorem updateProfile_boundaries:
  assumes "auth_user r = Some u"
  shows "(length name = 0 \<or> length name = 33 \<longrightarrow>
            updateProfile r (Some name) w =
              (Error ''Display name must be between 1 and 32 characters'', emit AuthGetUser w))
       \<and> (length name = 1 \<or> length name = 32 \<longrightarrow>
            (\<exists>rest. new_effects w (snd (updateProfile r (Some name) w)) =
                      AuthGetUser
                      # ProfilesUpdate (DisplayNamePatch name (clock r 0)) (user_id u) # rest)
            \<and> (update_error r = None \<longrightarrow>
                 fst (updateProfile r (Some name) w) = Message ''Profile updated successfully''
                 \<and> (\<forall>p. profiles w (user_id u) = Some p \<longrightarrow>
                       profiles (snd (updateProfile r (Some name) w)) (user_id u) =
                         Some (p\<lparr>p_display_name := name, p_updated_at := clock r 0\<rparr>))))"
proof (intro conjI impI allI)
  assume "length name = 0 \<or> length name = 33"
  then show "updateProfile r (Some name) w =
              (Error ''Display name must be between 1 and 32 characters'', emit AuthGetUser w)"
    using assms by (auto simp: updateProfile_def auth_getUser_def)
next
  assume len: "length name = 1 \<or> length name = 32"
  then have ne: "name \<noteq> []" and ok: "\<not> (length name = 0 \<or> 32 < length name)"
    by auto
  show "\<exists>rest. new_effects w (snd (updateProfile r (Some name) w)) =
                 AuthGetUser
                 # ProfilesUpdate (DisplayNamePatch name (clock r 0)) (user_id u) # rest"
    using assms ne ok
    by (cases "update_error r") (simp_all add: updateProfile_def collab_defs new_effects_def)
next
  assume len: "length name = 1 \<or> length name = 32" and good: "update_error r = None"
  then have ne: "name \<noteq> []" and ok: "\<not> (length name = 0 \<or> 32 < length name)"
    by auto
  show "fst (updateProfile r (Some name) w) = Message ''Profile updated successfully''"
    using assms ne ok good by (simp add: updateProfile_def collab_defs)
next
  fix p
  assume len: "length name = 1 \<or> length name = 32" and good: "update_error r = None"
    and row: "profiles w (user_id u) = Some p"
  then have ne: "name \<noteq> []" and ok: "\<not> (length name = 0 \<or> 32 < length name)"
    by auto
  show "profiles (snd (updateProfile r (Some name) w)) (user_id u) =
          Some (p\<lparr>p_display_name := name, p_updated_at := clock r 0\<rparr>)"
    using assms ne ok good row by (simp add: updateProfile_def collab_defs)
qed

theorem updateProfile_boundaries_witness:
  "auth_user good_remote = Some alice
   \<and> length '''' = 0
   \<and> updateProfile good_remote (Some '''') alice_world =
       (Error ''Display name must be between 1 and 32 characters'', emit AuthGetUser alice_world)
   \<and> length ''A'' = 1
   \<and> update_error good_remote = None
   \<and> profiles alice_world (user_id alice) = Some alice_profile
   \<and> fst (updateProfile good_remote (Some ''A'') alice_world)
       = Message ''Profile updated successfully''
   \<and> profiles (snd (updateProfile good_remote (Some ''A'') alice_world)) ''u1'' =
       Some (alice_profile\<lparr>p_display_name := ''A'', p_updated_at := 1234\<rparr>)"
  using updateProfile_boundaries [of good_remote alice "''''" alice_world]
        updateProfile_boundaries [of good_remote alice "''A''" alice_world]
  by (simp add: fixture_defs)

subsection \<open>uploadAvatar\<close>

text \<open>The extension the action computes is the part of the file name after its last dot.\<close>

lemma str_split_not_Nil: "str_split sep s \<noteq> []"
  by (induction s) (auto split: list.splits)

lemma str_split_no_sep: "sep \<notin> set s \<Longrightarrow> str_split sep s = [s]"
  by (induction s) auto

lemma str_split_sep: "sep \<in> set s \<Longrightarrow> \<exists>p q qs. str_split sep s = p # q # qs"
proof (induction s)
  case Nil
  then show ?case by simp
next
  case (Cons c s)
  show ?case
  proof (cases "c = sep")
    case True
    then show ?thesis
      using str_split_not_Nil [of sep s] by (cases "str_split sep s") auto
  next
    case False
    with Cons.prems have "sep \<in> set s" by simp
    from Cons.IH [OF this] False show ?thesis by auto
  qed
qed

lemma pop_Cons: "xs \<noteq> [] \<Longrightarrow> pop (x # xs) = pop xs"
  by (cases xs) auto

lemma pop_str_split:
  "pop (str_split sep s) = Some (rev (takeWhile (\<lambda>c. c \<noteq> sep) (rev s)))"
proof (induction s)
  case Nil
  then show ?case by simp
next
  case (Cons c s)
  show ?case
  proof (cases "c = sep")
    case True
    then show ?thesis
      using Cons.IH str_split_not_Nil [of sep s]
      by (simp add: pop_Cons takeWhile_append)
  next
    case False
    show ?thesis
    proof (cases "sep \<in> set s")
      case True
      from str_split_sep [OF this] obtain p q qs where "str_split sep s = p # q # qs"
        by blast
      with Cons.IH False True show ?thesis
        by (auto simp: takeWhile_append)
    next
      case no: False
      with False show ?thesis
        by (simp add: str_split_no_sep takeWhile_append)
    qed
  qed
qed

lemma extension_eq:
  "template_str (pop (str_split (CHR ''.'') name)) = after_last_dot name"
  by (simp add: pop_str_split after_last_dot_def)

lemmas upload_defs = uploadAvatar_def auth_getUser_def valid_avatar_def startsWith_def Let_def
  extension_eq avatar_path_def storage_key_def storage_upload_def storage_getPublicUrl_def
  from_profiles_update_def storage_remove_def revalidatePath_def console_error_def emit_def

lemma uploadAvatar_upload_failed:
  assumes "auth_user r = Some u" and "valid_avatar f" and "upload_error r = Some msg"
  shows "uploadAvatar r (Some f) w =
           (Error (''Failed to upload avatar. '' @ msg),
            w\<lparr>effects := effects w @
               [AuthGetUser,
                StorageUpload ''avatars''
                  (avatar_path (user_id u) (clock r 0) (file_name f)) f,
                ConsoleError ''Error uploading avatar:'']\<rparr>)"
  using assms by (simp add: upload_defs)

lemma uploadAvatar_no_url:
  assumes "auth_user r = Some u" and "valid_avatar f" and "upload_error r = None"
    and "truthy (public_url r ''avatars''
           (avatar_path (user_id u) (clock r 0) (file_name f))) = None"
  shows "uploadAvatar r (Some f) w =
           (Error ''Failed to get avatar URL.'',
            w\<lparr>objects := (objects w)
                 ((''avatars'', avatar_path (user_id u) (clock r 0) (file_name f))
                    \<mapsto> f),
              effects := effects w @
               [AuthGetUser,
                StorageUpload ''avatars''
                  (avatar_path (user_id u) (clock r 0) (file_name f)) f,
                StorageGetPublicUrl ''avatars''
                  (avatar_path (user_id u) (clock r 0) (file_name f)),
                ConsoleError ''Error getting public URL for avatar'']\<rparr>)"
  using assms by (simp add: upload_defs)

lemma uploadAvatar_update_failed:
  assumes "auth_user r = Some u" and "valid_avatar f" and "upload_error r = None"
    and "truthy (public_url r ''avatars''
           (avatar_path (user_id u) (clock r 0) (file_name f))) = Some url"
    and "update_error r = Some msg"
  shows "uploadAvatar r (Some f) w =
           (Error (''Failed to update profile with new avatar. '' @ msg),
            w\<lparr>objects :=
                (if remove_error r = None
                 then (objects w)
                   ((''avatars'', avatar_path (user_id u) (clock r 0) (file_name f))
                      := None)
                 else (objects w)
                   ((''avatars'', avatar_path (user_id u) (clock r 0) (file_name f))
                      \<mapsto> f)),
              effects := effects w @
               [AuthGetUser,
                StorageUpload ''avatars''
                  (avatar_path (user_id u) (clock r 0) (file_name f)) f,
                StorageGetPublicUrl ''avatars''
                  (avatar_path (user_id u) (clock r 0) (file_name f)),
                ProfilesUpdate (AvatarPatch url (clock r 1)) (user_id u),
                ConsoleError ''Error updating avatar URL in profile:'',
                StorageRemove ''avatars''
                  [avatar_path (user_id u) (clock r 0) (file_name f)]]\<rparr>)"
  using assms by (cases "remove_error r") (simp_all add: upload_defs)

lemma uploadAvatar_success:
  assumes "auth_user r = Some u" and "valid_avatar f" and "upload_error r = None"
    and "truthy (public_url r ''avatars''
           (avatar_path (user_id u) (clock r 0) (file_name f))) = Some url"
    and "update_error r = None"
  shows "uploadAvatar r (Some f) w =
           (MessageAvatar ''Avatar updated successfully'' url,
            w\<lparr>objects := (objects w)
                 ((''avatars'', avatar_path (user_id u) (clock r 0) (file_name f))
                    \<mapsto> f),
              profiles :=
                (case profiles w (user_id u) of
                   None \<Rightarrow> profiles w
                 | Some p \<Rightarrow> (profiles w)(user_id u \<mapsto> apply_patch (AvatarPatch url (clock r 1)) p)),
              effects := effects w @
               [AuthGetUser,
                StorageUpload ''avatars''
                  (avatar_path (user_id u) (clock r 0) (file_name f)) f,
                StorageGetPublicUrl ''avatars''
                  (avatar_path (user_id u) (clock r 0) (file_name f)),
                ProfilesUpdate (AvatarPatch url (clock r 1)) (user_id u),
                RevalidatePath ''/settings'',
                RevalidatePath ''/dashboard'']\<rparr>)"
  using assms by (cases "profiles w (user_id u)") (simp_all add: upload_defs)

text \<open>
  The calls an authenticated upload of a valid file makes, in order, for every answer of
  the backend.
\<close>

lemma uploadAvatar_effects:
  assumes "auth_user r = Some u" and "valid_avatar f"
  shows "new_effects w (snd (uploadAvatar r (Some f) w)) =
           AuthGetUser
           # StorageUpload ''avatars''
               (avatar_path (user_id u) (clock r 0) (file_name f)) f
           # (case upload_error r of
                Some msg \<Rightarrow> [ConsoleError ''Error uploading avatar:'']
              | None \<Rightarrow>
                  StorageGetPublicUrl ''avatars''
                    (avatar_path (user_id u) (clock r 0) (file_name f))
                  # (case truthy (public_url r ''avatars''
                             (avatar_path (user_id u) (clock r 0) (file_name f))) of
                       None \<Rightarrow> [ConsoleError ''Error getting public URL for avatar'']
                     | Some url \<Rightarrow>
                         ProfilesUpdate (AvatarPatch url (clock r 1)) (user_id u)
                         # (case update_error r of
                              None \<Rightarrow> [RevalidatePath ''/settings'', RevalidatePath ''/dashboard'']
                            | Some msg \<Rightarrow>
                                [ConsoleError ''Error updating avatar URL in profile:'',
                                 StorageRemove ''avatars''
                                   [avatar_path (user_id u) (clock r 0) (file_name f)]])))"
proof (cases "upload_error r")
  case (Some msg)
  show ?thesis
    by (simp add: uploadAvatar_upload_failed [OF assms Some] new_effects_def Some)
next
  case None
  let ?key = "avatar_path (user_id u) (clock r 0) (file_name f)"
  show ?thesis
  proof (cases "truthy (public_url r ''avatars'' ?key)")
    case no_url: None
    show ?thesis
      by (simp add: uploadAvatar_no_url [OF assms None no_url] new_effects_def None no_url)
  next
    case url: (Some url)
    show ?thesis
    proof (cases "update_error r")
      case ok: None
      show ?thesis
        by (simp add: uploadAvatar_success [OF assms None url ok] new_effects_def None url ok)
    next
      case (Some msg)
      show ?thesis
        by (simp add: uploadAvatar_update_failed [OF assms None url Some]
            new_effects_def None url Some)
    qed
  qed
qed

text \<open>
  Claim C4. For an authenticated caller the three constraints are checked in order and the
  first failure decides the result: a missing or empty file gives \<open>No file selected\<close>
  whatever its size and type; a file above 2 MiB gives the size message whatever its type;
  a file within the size limit whose MIME type does not start with \<open>image/\<close> gives the
  image message. In each case nothing but the identity lookup has happened. A file of
  exactly \<open>2 * 1024 * 1024\<close> bytes with an image type passes: the next call is the upload.
\<close>

theorem uploadAvatar_validation_order:
  assumes "auth_user r = Some u"
  shows "(avatar = None \<or> (\<exists>f. avatar = Some f \<and> file_size f = 0) \<longrightarrow>
            uploadAvatar r avatar w = (Error ''No file selected'', emit AuthGetUser w))
       \<and> (\<forall>f. avatar = Some f \<and> 2 * 1024 * 1024 < file_size f \<longrightarrow>
            uploadAvatar r avatar w =
              (Error ''File size must be less than 2MB'', emit AuthGetUser w))
       \<and> (\<forall>f. avatar = Some f \<and> 0 < file_size f \<and> file_size f \<le> 2 * 1024 * 1024
                \<and> \<not> prefix ''image/'' (file_type f) \<longrightarrow>
            uploadAvatar r avatar w = (Error ''File must be an image'', emit AuthGetUser w))
       \<and> (\<forall>f. avatar = Some f \<and> file_size f = 2 * 1024 * 1024
                \<and> prefix ''image/'' (file_type f) \<longrightarrow>
            (\<exists>path rest. new_effects w (snd (uploadAvatar r avatar w)) =
                            AuthGetUser # StorageUpload ''avatars'' path f # rest))"
proof (intro conjI impI allI)
  assume "avatar = None \<or> (\<exists>f. avatar = Some f \<and> file_size f = 0)"
  then show "uploadAvatar r avatar w = (Error ''No file selected'', emit AuthGetUser w)"
    using assms by (auto simp: uploadAvatar_def auth_getUser_def)
next
  fix f
  assume "avatar = Some f \<and> 2 * 1024 * 1024 < file_size f"
  then show "uploadAvatar r avatar w =
               (Error ''File size must be less than 2MB'', emit AuthGetUser w)"
    using assms by (auto simp: uploadAvatar_def auth_getUser_def)
next
  fix f
  assume "avatar = Some f \<and> 0 < file_size f \<and> file_size f \<le> 2 * 1024 * 1024
            \<and> \<not> prefix ''image/'' (file_type f)"
  then show "uploadAvatar r avatar w = (Error ''File must be an image'', emit AuthGetUser w)"
    using assms by (auto simp: uploadAvatar_def auth_getUser_def startsWith_def)
next
  fix f
  assume a: "avatar = Some f \<and> file_size f = 2 * 1024 * 1024 \<and> prefix ''image/'' (file_type f)"
  then have v: "valid_avatar f"
    by (simp add: valid_avatar_def)
  from a show "\<exists>path rest. new_effects w (snd (uploadAvatar r avatar w)) =
                 AuthGetUser # StorageUpload ''avatars'' path f # rest"
    by (simp add: uploadAvatar_effects [OF assms v])
qed

theorem uploadAvatar_validation_order_witness:
  "auth_user good_remote = Some alice
   \<and> uploadAvatar good_remote None empty_world
       = (Error ''No file selected'', emit AuthGetUser empty_world)
   \<and> 2 * 1024 * 1024 < file_size (png\<lparr>file_size := 2097153, file_type := ''text/plain''\<rparr>)
   \<and> uploadAvatar good_remote
        (Some (png\<lparr>file_size := 2097153, file_type := ''text/plain''\<rparr>)) empty_world
       = (Error ''File size must be less than 2MB'', emit AuthGetUser empty_world)
   \<and> \<not> prefix ''image/'' (file_type (png\<lparr>file_type := ''text/plain''\<rparr>))
   \<and> uploadAvatar good_remote (Some (png\<lparr>file_type := ''text/plain''\<rparr>)) empty_world
       = (Error ''File must be an image'', emit AuthGetUser empty_world)
   \<and> file_size png = 2 * 1024 * 1024 \<and> prefix ''image/'' (file_type png)
   \<and> (\<exists>path rest. new_effects empty_world
                      (snd (uploadAvatar good_remote (Some png) empty_world)) =
                    AuthGetUser # StorageUpload ''avatars'' path png # rest)"
  using uploadAvatar_validation_order [of good_remote alice None empty_world]
        uploadAvatar_validation_order [of good_remote alice
          "Some (png\<lparr>file_size := 2097153, file_type := ''text/plain''\<rparr>)" empty_world]
        uploadAvatar_validation_order [of good_remote alice
          "Some (png\<lparr>file_type := ''text/plain''\<rparr>)" empty_world]
        uploadAvatar_validation_order [of good_remote alice "Some png" empty_world]
  by (simp add: good_remote_def png_def)

text \<open>
  Claim C9, as amended. For an authenticated upload that passes validation, the object is
  uploaded to the bucket \<open>avatars\<close> under the path \<open>avatars/\<close> followed by the key of
  the specification (the caller's id, a hyphen, the time in milliseconds, a dot, and the
  part of the original file name after its last dot). There is no other upload, and every
  later request for a public URL and every removal names that bucket and exactly that path.
\<close>

theorem uploadAvatar_key:
  assumes "auth_user r = Some u" and "valid_avatar f"
  shows "\<exists>rest. 
     new_effects w (snd (uploadAvatar r (Some f) w)) =
           AuthGetUser
           # StorageUpload ''avatars''
               (avatar_path (user_id u) (clock r 0) (file_name f)) f
           # rest
     \<and> (\<forall>bucket path x. StorageUpload bucket path x \<notin> set rest)
     \<and> (\<forall>bucket path. StorageGetPublicUrl bucket path \<in> set rest \<longrightarrow>
            bucket = ''avatars''
            \<and> path = avatar_path (user_id u) (clock r 0) (file_name f))
     \<and> (\<forall>bucket paths. StorageRemove bucket paths \<in> set rest \<longrightarrow>
            bucket = ''avatars''
            \<and> paths = [avatar_path (user_id u) (clock r 0) (file_name f)])"
  unfolding uploadAvatar_effects [OF assms]
  by (auto split: option.splits)

theorem uploadAvatar_key_witness:
  "auth_user good_remote = Some alice \<and> valid_avatar png
   \<and> avatar_path (user_id alice) (clock good_remote 0) (file_name png) = ''avatars/u1-1234.png''
   \<and> (\<exists>rest. new_effects empty_world (snd (uploadAvatar good_remote (Some png) empty_world)) =
         AuthGetUser # StorageUpload ''avatars'' ''avatars/u1-1234.png'' png # rest)"
proof -
  have k: "avatar_path (user_id alice) (clock good_remote 0) (file_name png) = ''avatars/u1-1234.png''"
    by (simp add: avatar_path_def storage_key_def after_last_dot_def string_of_nat.simps digit_char_def
        fixture_defs)
  have a: "auth_user good_remote = Some alice"
    by (simp add: good_remote_def)
  have v: "valid_avatar png"
    by (simp add: valid_avatar_def png_def)
  from uploadAvatar_key [OF a v, of empty_world] show ?thesis
    unfolding k using a v by auto
qed

text \<open>
  Claim C9 as stated fails: the path inside the bucket is not the key itself but the key
  under the folder \<open>avatars/\<close>. For the user \<open>u1\<close>, the time 1234 and the file
  \<open>me.png\<close> the key is \<open>u1-1234.png\<close>, the upload goes to
  \<open>avatars/u1-1234.png\<close>, and nothing is stored under \<open>u1-1234.png\<close>.
\<close>

theorem uploadAvatar_key_counterexample:
  "storage_key ''u1'' 1234 ''me.png'' = ''u1-1234.png''
   \<and> new_effects empty_world (snd (uploadAvatar good_remote (Some png) empty_world)) ! 1
       = StorageUpload ''avatars'' ''avatars/u1-1234.png'' png
   \<and> objects (snd (uploadAvatar good_remote (Some png) empty_world))
        (''avatars'', ''avatars/u1-1234.png'') = Some png
   \<and> objects (snd (uploadAvatar good_remote (Some png) empty_world))
        (''avatars'', ''u1-1234.png'') = None"
  by (simp add: upload_defs after_last_dot_def string_of_nat.simps digit_char_def
      fixture_defs new_effects_def)

text \<open>
  Claim C1, as amended. When an authenticated upload of a valid file succeeds, a public
  URL is obtained and the update of the profile row then fails, the action asks the object
  store to remove the path it has just uploaded, as its last call, and returns the error
  result that carries the message of the row store. The answer to the removal is not
  looked at: if the removal succeeds, the store holds nothing under the uploaded path when
  the action returns.
\<close>

theorem uploadAvatar_compensation:
  assumes "auth_user r = Some u" and "valid_avatar f" and "upload_error r = None"
    and "truthy (public_url r ''avatars''
           (avatar_path (user_id u) (clock r 0) (file_name f))) = Some url"
    and "update_error r = Some msg"
  shows "fst (uploadAvatar r (Some f) w)
           = Error (''Failed to update profile with new avatar. '' @ msg)
       \<and> new_effects w (snd (uploadAvatar r (Some f) w)) =
           [AuthGetUser,
            StorageUpload ''avatars'' (avatar_path (user_id u) (clock r 0) (file_name f)) f,
            StorageGetPublicUrl ''avatars'' (avatar_path (user_id u) (clock r 0) (file_name f)),
            ProfilesUpdate (AvatarPatch url (clock r 1)) (user_id u),
            ConsoleError ''Error updating avatar URL in profile:'',
            StorageRemove ''avatars'' [avatar_path (user_id u) (clock r 0) (file_name f)]]
       \<and> (remove_error r = None \<longrightarrow>
            objects (snd (uploadAvatar r (Some f) w))
              (''avatars'', avatar_path (user_id u) (clock r 0) (file_name f)) = None)"
  by (simp add: uploadAvatar_update_failed [OF assms] new_effects_def)

theorem uploadAvatar_compensation_witness:
  "auth_user (good_remote\<lparr>update_error := Some ''row locked''\<rparr>) = Some alice
   \<and> valid_avatar png
   \<and> upload_error (good_remote\<lparr>update_error := Some ''row locked''\<rparr>) = None
   \<and> truthy (public_url (good_remote\<lparr>update_error := Some ''row locked''\<rparr>) ''avatars''
         ''avatars/u1-1234.png'') = Some ''https://cdn/avatars/avatars/u1-1234.png''
   \<and> update_error (good_remote\<lparr>update_error := Some ''row locked''\<rparr>) = Some ''row locked''
   \<and> remove_error (good_remote\<lparr>update_error := Some ''row locked''\<rparr>) = None
   \<and> fst (uploadAvatar (good_remote\<lparr>update_error := Some ''row locked''\<rparr>) (Some png)
          empty_world)
       = Error ''Failed to update profile with new avatar. row locked''
   \<and> objects (snd (uploadAvatar (good_remote\<lparr>update_error := Some ''row locked''\<rparr>)
          (Some png) empty_world)) (''avatars'', ''avatars/u1-1234.png'') = None"
proof -
  let ?r = "good_remote\<lparr>update_error := Some ''row locked''\<rparr>"
  have k: "avatar_path (user_id alice) (clock ?r 0) (file_name png) = ''avatars/u1-1234.png''"
    by (simp add: avatar_path_def storage_key_def after_last_dot_def string_of_nat.simps
        digit_char_def fixture_defs)
  have a: "auth_user ?r = Some alice"
    by (simp add: good_remote_def)
  have v: "valid_avatar png"
    by (simp add: valid_avatar_def png_def)
  have up: "upload_error ?r = None"
    by (simp add: good_remote_def)
  have url: "truthy (public_url ?r ''avatars''
               (avatar_path (user_id alice) (clock ?r 0) (file_name png)))
             = Some ''https://cdn/avatars/avatars/u1-1234.png''"
    unfolding k by (simp add: good_remote_def)
  have upd: "update_error ?r = Some ''row locked''"
    by simp
  have rm: "remove_error ?r = None"
    by (simp add: good_remote_def)
  from uploadAvatar_compensation [OF a v up url upd, of empty_world] rm
  show ?thesis
    unfolding k using a v up url [unfolded k] by simp
qed

text \<open>
  Claim C1 as stated fails: when the removal itself is refused, the action returns the
  same error result and the uploaded object is still in the store.
\<close>

theorem uploadAvatar_compensation_counterexample:
  "auth_user (good_remote\<lparr>update_error := Some ''row locked'',
                            remove_error := Some ''denied''\<rparr>) = Some alice
   \<and> valid_avatar png
   \<and> fst (uploadAvatar (good_remote\<lparr>update_error := Some ''row locked'',
                                     remove_error := Some ''denied''\<rparr>) (Some png) empty_world)
       = Error ''Failed to update profile with new avatar. row locked''
   \<and> objects (snd (uploadAvatar (good_remote\<lparr>update_error := Some ''row locked'',
                                     remove_error := Some ''denied''\<rparr>) (Some png) empty_world))
        (''avatars'', ''avatars/u1-1234.png'') = Some png"
  by (simp add: upload_defs after_last_dot_def string_of_nat.simps digit_char_def
      fixture_defs)

text \<open>
  Claim C10. When the upload succeeds and no public URL comes back, the action returns
  \<open>Failed to get avatar URL.\<close>, the uploaded object is still in the store, and no
  removal has been asked for. A removal is asked for exactly when the upload succeeded,
  a public URL came back and the update of the profile row failed.
\<close>

theorem uploadAvatar_no_url_leaves_object:
  assumes "auth_user r = Some u" and "valid_avatar f"
  shows "(upload_error r = None
          \<and> truthy (public_url r ''avatars''
                (avatar_path (user_id u) (clock r 0) (file_name f))) = None \<longrightarrow>
            fst (uploadAvatar r (Some f) w) = Error ''Failed to get avatar URL.''
            \<and> objects (snd (uploadAvatar r (Some f) w))
                (''avatars'', avatar_path (user_id u) (clock r 0) (file_name f)) = Some f
            \<and> \<not> list_ex is_remove (new_effects w (snd (uploadAvatar r (Some f) w))))
       \<and> (list_ex is_remove (new_effects w (snd (uploadAvatar r (Some f) w))) \<longleftrightarrow>
            upload_error r = None
            \<and> truthy (public_url r ''avatars''
                  (avatar_path (user_id u) (clock r 0) (file_name f))) \<noteq> None
            \<and> update_error r \<noteq> None)"
proof (intro conjI impI)
  assume h: "upload_error r = None
          \<and> truthy (public_url r ''avatars''
                (avatar_path (user_id u) (clock r 0) (file_name f))) = None"
  then have up: "upload_error r = None"
    and no_url: "truthy (public_url r ''avatars''
                (avatar_path (user_id u) (clock r 0) (file_name f))) = None"
    by simp_all
  show "fst (uploadAvatar r (Some f) w) = Error ''Failed to get avatar URL.''"
    by (simp add: uploadAvatar_no_url [OF assms up no_url])
  show "objects (snd (uploadAvatar r (Some f) w))
          (''avatars'', avatar_path (user_id u) (clock r 0) (file_name f)) = Some f"
    by (simp add: uploadAvatar_no_url [OF assms up no_url])
  show "\<not> list_ex is_remove (new_effects w (snd (uploadAvatar r (Some f) w)))"
    by (simp add: uploadAvatar_effects [OF assms] up no_url)
next
  show "list_ex is_remove (new_effects w (snd (uploadAvatar r (Some f) w))) \<longleftrightarrow>
            upload_error r = None
            \<and> truthy (public_url r ''avatars''
                  (avatar_path (user_id u) (clock r 0) (file_name f))) \<noteq> None
            \<and> update_error r \<noteq> None"
    by (simp add: uploadAvatar_effects [OF assms] split: option.splits)
qed

theorem uploadAvatar_no_url_leaves_object_witness:
  "auth_user (good_remote\<lparr>public_url := (\<lambda>bucket path. None)\<rparr>) = Some alice
   \<and> valid_avatar png
   \<and> upload_error (good_remote\<lparr>public_url := (\<lambda>bucket path. None)\<rparr>) = None
   \<and> truthy (public_url (good_remote\<lparr>public_url := (\<lambda>bucket path. None)\<rparr>) ''avatars''
         ''avatars/u1-1234.png'') = None
   \<and> fst (uploadAvatar (good_remote\<lparr>public_url := (\<lambda>bucket path. None)\<rparr>) (Some png)
          empty_world) = Error ''Failed to get avatar URL.''
   \<and> objects (snd (uploadAvatar (good_remote\<lparr>public_url := (\<lambda>bucket path. None)\<rparr>)
          (Some png) empty_world)) (''avatars'', ''avatars/u1-1234.png'') = Some png"
proof -
  let ?r = "good_remote\<lparr>public_url := (\<lambda>bucket path. None)\<rparr>"
  have k: "avatar_path (user_id alice) (clock ?r 0) (file_name png) = ''avatars/u1-1234.png''"
    by (simp add: avatar_path_def storage_key_def after_last_dot_def string_of_nat.simps
        digit_char_def fixture_defs)
  have a: "auth_user ?r = Some alice"
    by (simp add: good_remote_def)
  have v: "valid_avatar png"
    by (simp add: valid_avatar_def png_def)
  have up: "upload_error ?r = None"
    by (simp add: good_remote_def)
  have no_url: "truthy (public_url ?r ''avatars'' ''avatars/u1-1234.png'') = None"
    by simp
  from uploadAvatar_no_url_leaves_object [OF a v, of empty_world] up no_url
  show ?thesis
    unfolding k using a v by simp
qed

subsection \<open>getConnectedAccounts\<close>

text \<open>The action changes nothing but the trace, and the trace gains reads and a log line only.\<close>

lemma getConnectedAccounts_world:
  "snd (getConnectedAccounts r w) =
     w\<lparr>effects := effects w @
         (case auth_user r of
            None \<Rightarrow> [AuthGetUser]
          | Some u \<Rightarrow>
              (case select_error r of
                 None \<Rightarrow> [AuthGetUser, AccountsSelect (user_id u)]
               | Some msg \<Rightarrow>
                   [AuthGetUser, AccountsSelect (user_id u),
                    ConsoleError ''Error fetching connected accounts:'']))\<rparr>"
  by (simp add: getConnectedAccounts_def from_connected_accounts_select_def auth_getUser_def
      console_error_def emit_def split: option.splits)

text \<open>
  Claim C6. An unauthenticated caller gets the authentication error with an empty list.
  When the query fails, the caller gets an error that carries the message of the row store,
  with an empty list. Otherwise there is no error and the list holds exactly the rows of
  \<^verbatim>\<open>connected_accounts\<close> whose \<^verbatim>\<open>user_id\<close> is the caller's id (each as
  often as the table holds it), in ascending order of creation time. In every case the
  object store and both tables are unchanged, and no call that writes or invalidates a
  view has been made.
\<close>

theorem getConnectedAccounts_cases:
  "(auth_user r = None \<longrightarrow>
      fst (getConnectedAccounts r w) =
        \<lparr>res_error = Some ''User not authenticated'', res_accounts = []\<rparr>)
   \<and> (\<forall>u msg. auth_user r = Some u \<and> select_error r = Some msg \<longrightarrow>
        fst (getConnectedAccounts r w) =
          \<lparr>res_error = Some (''Failed to fetch connected accounts. '' @ msg),
           res_accounts = []\<rparr>)
   \<and> (\<forall>u. auth_user r = Some u \<and> select_error r = None \<longrightarrow>
        res_error (fst (getConnectedAccounts r w)) = None
        \<and> sorted (map acc_created_at (res_accounts (fst (getConnectedAccounts r w))))
        \<and> mset (res_accounts (fst (getConnectedAccounts r w))) =
            filter_mset (\<lambda>a. acc_user_id a = user_id u) (mset (accounts w)))
   \<and> objects (snd (getConnectedAccounts r w)) = objects w
   \<and> profiles (snd (getConnectedAccounts r w)) = profiles w
   \<and> accounts (snd (getConnectedAccounts r w)) = accounts w
   \<and> \<not> list_ex writes_or_invalidates (new_effects w (snd (getConnectedAccounts r w)))"
proof (intro conjI impI allI)
  assume "auth_user r = None"
  then show "fst (getConnectedAccounts r w) =
        \<lparr>res_error = Some ''User not authenticated'', res_accounts = []\<rparr>"
    by (simp add: getConnectedAccounts_def auth_getUser_def)
next
  fix u msg
  assume "auth_user r = Some u \<and> select_error r = Some msg"
  then show "fst (getConnectedAccounts r w) =
          \<lparr>res_error = Some (''Failed to fetch connected accounts. '' @ msg),
           res_accounts = []\<rparr>"
    by (simp add: getConnectedAccounts_def auth_getUser_def from_connected_accounts_select_def)
next
  fix u
  assume a: "auth_user r = Some u \<and> select_error r = None"
  then have res: "fst (getConnectedAccounts r w) =
      \<lparr>res_error = None,
       res_accounts = sort_key acc_created_at
                        (filter (\<lambda>a. acc_user_id a = user_id u) (accounts w))\<rparr>"
    by (simp add: getConnectedAccounts_def auth_getUser_def from_connected_accounts_select_def
        emit_def)
  show "res_error (fst (getConnectedAccounts r w)) = None"
    by (simp add: res)
  show "sorted (map acc_created_at (res_accounts (fst (getConnectedAccounts r w))))"
    by (simp add: res)
  show "mset (res_accounts (fst (getConnectedAccounts r w))) =
            filter_mset (\<lambda>a. acc_user_id a = user_id u) (mset (accounts w))"
    by (simp add: res)
next
  show "objects (snd (getConnectedAccounts r w)) = objects w"
    by (simp add: getConnectedAccounts_world)
  show "profiles (snd (getConnectedAccounts r w)) = profiles w"
    by (simp add: getConnectedAccounts_world)
  show "accounts (snd (getConnectedAccounts r w)) = accounts w"
    by (simp add: getConnectedAccounts_world)
  show "\<not> list_ex writes_or_invalidates (new_effects w (snd (getConnectedAccounts r w)))"
    by (simp add: getConnectedAccounts_world new_effects_def split: option.splits)
qed

theorem getConnectedAccounts_cases_witness:
  "auth_user (good_remote\<lparr>auth_user := None\<rparr>) = None
   \<and> fst (getConnectedAccounts (good_remote\<lparr>auth_user := None\<rparr>)
            (empty_world\<lparr>accounts := three_accounts\<rparr>)) =
        \<lparr>res_error = Some ''User not authenticated'', res_accounts = []\<rparr>
   \<and> auth_user (good_remote\<lparr>select_error := Some ''down''\<rparr>) = Some alice
   \<and> select_error (good_remote\<lparr>select_error := Some ''down''\<rparr>) = Some ''down''
   \<and> fst (getConnectedAccounts (good_remote\<lparr>select_error := Some ''down''\<rparr>)
            (empty_world\<lparr>accounts := three_accounts\<rparr>)) =
        \<lparr>res_error = Some ''Failed to fetch connected accounts. down'', res_accounts = []\<rparr>
   \<and> auth_user good_remote = Some alice \<and> select_error good_remote = None
   \<and> res_accounts (fst (getConnectedAccounts good_remote
                           (empty_world\<lparr>accounts := three_accounts\<rparr>))) =
        [three_accounts ! 2, three_accounts ! 0]
   \<and> sorted (map acc_created_at
        (res_accounts (fst (getConnectedAccounts good_remote
                              (empty_world\<lparr>accounts := three_accounts\<rparr>)))))"
proof -
  let ?w = "empty_world\<lparr>accounts := three_accounts\<rparr>"
  have r: "res_accounts (fst (getConnectedAccounts good_remote ?w)) =
             [three_accounts ! 2, three_accounts ! 0]"
    by (simp add: getConnectedAccounts_def auth_getUser_def from_connected_accounts_select_def
        emit_def fixture_defs three_accounts_def)
  show ?thesis
    using getConnectedAccounts_cases [of "good_remote\<lparr>auth_user := None\<rparr>" ?w]
          getConnectedAccounts_cases [of "good_remote\<lparr>select_error := Some ''down''\<rparr>" ?w]
          getConnectedAccounts_cases [of good_remote ?w] r
    by (simp add: good_remote_def)
qed

subsection \<open>searchActivity\<close>

text \<open>\<open>str_includes\<close> decides the substring relation.\<close>

lemma str_includes_iff: "str_includes t q \<longleftrightarrow> (\<exists>before after. t = before @ q @ after)"
proof (induction t)
  case Nil
  then show ?case by auto
next
  case (Cons c cs)
  show ?case
  proof
    assume "str_includes (c # cs) q"
    then consider "prefix q (c # cs)" | "str_includes cs q"
      by auto
    then show "\<exists>before after. c # cs = before @ q @ after"
    proof cases
      case 1
      then obtain after where "c # cs = q @ after"
        by (auto simp: prefix_def)
      then have "c # cs = [] @ q @ after"
        by simp
      then show ?thesis by blast
    next
      case 2
      with Cons.IH obtain before after where "cs = before @ q @ after"
        by blast
      then have "c # cs = (c # before) @ q @ after"
        by simp
      then show ?thesis by blast
    qed
  next
    assume "\<exists>before after. c # cs = before @ q @ after"
    then obtain before after where eq: "c # cs = before @ q @ after"
      by blast
    show "str_includes (c # cs) q"
    proof (cases before)
      case Nil
      with eq have "prefix q (c # cs)"
        by (simp add: prefix_def)
      then show ?thesis by simp
    next
      case (Cons b bs)
      with eq have "cs = bs @ q @ after"
        by simp
      with Cons.IH have "str_includes cs q"
        by blast
      then show ?thesis by simp
    qed
  qed
qed

lemma includes_lower_iff:
  "str_includes (toLowerCase t) (toLowerCase q) \<longleftrightarrow> ci_substring q t"
proof
  assume "str_includes (toLowerCase t) (toLowerCase q)"
  then obtain before after where "map lower_char t = before @ (map lower_char q @ after)"
    by (auto simp: str_includes_iff toLowerCase_def)
  then obtain b rest where t: "t = b @ rest"
    and rest: "map lower_char q @ after = map lower_char rest"
    by (auto simp: map_eq_append_conv)
  from rest obtain piece a where "rest = piece @ a"
    and "map lower_char piece = map lower_char q"
    by (auto simp: append_eq_map_conv)
  with t have "t = b @ piece @ a \<and> toLowerCase piece = toLowerCase q"
    by (simp add: toLowerCase_def)
  then show "ci_substring q t"
    unfolding ci_substring_def by blast
next
  assume "ci_substring q t"
  then obtain before piece after
    where "t = before @ piece @ after" and "toLowerCase piece = toLowerCase q"
    by (auto simp: ci_substring_def)
  then have "toLowerCase t = toLowerCase before @ toLowerCase q @ toLowerCase after"
    by (simp add: toLowerCase_def)
  then show "str_includes (toLowerCase t) (toLowerCase q)"
    unfolding str_includes_iff by blast
qed

lemma mock_lowered:
  "toLowerCase ''QueueCX Integration Setup'' = ''queuecx integration setup''"
  "toLowerCase ''Configured QueueCX integration with production environment''
     = ''configured queuecx integration with production environment''"
  "toLowerCase ''Environment Aware Configuration'' = ''environment aware configuration''"
  "toLowerCase ''Updated environment awareness settings for better monitoring''
     = ''updated environment awareness settings for better monitoring''"
  "toLowerCase ''Fluidity Index Analysis'' = ''fluidity index analysis''"
  "toLowerCase ''Analyzed system fluidity metrics and performance indicators''
     = ''analyzed system fluidity metrics and performance indicators''"
  by (simp_all add: toLowerCase_def lower_char_def)

lemma searchActivity_queuecx:
  assumes "toLowerCase query = ''queuecx''"
  shows "searchActivity clk query = [mockResults clk ! 0]"
proof -
  from assms have ne: "query \<noteq> []"
    by (auto simp: toLowerCase_def)
  have "searchActivity clk query =
          filter (\<lambda>item. str_includes (toLowerCase (act_title item)) ''queuecx''
                    \<or> str_includes (toLowerCase (act_description item)) ''queuecx'')
                 (mockResults clk)"
    using ne by (simp only: searchActivity_def assms if_False)
  also have "\<dots> = [mockResults clk ! 0]"
    by (simp add: mockResults_def mock_lowered)
  finally show ?thesis .
qed

text \<open>
  Claim C7. The empty query returns the three fixed candidates. Any other query returns
  exactly the candidates, in their order, whose title or description contains the query as
  a case-insensitive substring; in particular a query that no candidate contains returns
  the empty list, and every spelling of \<open>queuecx\<close> in upper and lower case returns the
  first candidate alone.
\<close>

theorem searchActivity_filter:
  "searchActivity clk [] = mockResults clk
   \<and> length (mockResults clk) = 3
   \<and> (query \<noteq> [] \<longrightarrow>
        searchActivity clk query =
          filter (\<lambda>item. ci_substring query (act_title item)
                        \<or> ci_substring query (act_description item)) (mockResults clk))
   \<and> (query \<noteq> []
        \<and> (\<forall>item \<in> set (mockResults clk).
               \<not> ci_substring query (act_title item)
               \<and> \<not> ci_substring query (act_description item)) \<longrightarrow>
        searchActivity clk query = [])
   \<and> (toLowerCase query = ''queuecx'' \<longrightarrow> searchActivity clk query = [mockResults clk ! 0])"
proof (intro conjI impI)
  show "searchActivity clk [] = mockResults clk"
    by (simp add: searchActivity_def)
  show "length (mockResults clk) = 3"
    by (simp add: mockResults_def)
next
  assume "query \<noteq> []"
  then show "searchActivity clk query =
          filter (\<lambda>item. ci_substring query (act_title item)
                        \<or> ci_substring query (act_description item)) (mockResults clk)"
    by (simp add: searchActivity_def includes_lower_iff)
next
  assume "query \<noteq> []
        \<and> (\<forall>item \<in> set (mockResults clk).
               \<not> ci_substring query (act_title item)
               \<and> \<not> ci_substring query (act_description item))"
  then show "searchActivity clk query = []"
    by (simp add: searchActivity_def includes_lower_iff)
next
  assume "toLowerCase query = ''queuecx''"
  then show "searchActivity clk query = [mockResults clk ! 0]"
    by (rule searchActivity_queuecx)
qed

theorem searchActivity_filter_witness:
  "''QueueCX'' \<noteq> [] \<and> toLowerCase ''QueueCX'' = ''queuecx''
   \<and> searchActivity (\<lambda>k. 1234) ''QueueCX'' = [mockResults (\<lambda>k. 1234) ! 0]
   \<and> act_id (mockResults (\<lambda>k. 1234) ! 0) = ''1''
   \<and> ''zzz'' \<noteq> []
   \<and> \<not> ci_substring ''zzz'' ''QueueCX Integration Setup''
   \<and> searchActivity (\<lambda>k. 1234) ''zzz'' = []"
proof -
  have l: "toLowerCase ''QueueCX'' = ''queuecx''"
    by (simp add: toLowerCase_def lower_char_def)
  have i: "act_id (mockResults (\<lambda>k. 1234) ! 0) = ''1''"
    by (simp add: mockResults_def)
  have z: "toLowerCase ''zzz'' = ''zzz''"
    by (simp add: toLowerCase_def lower_char_def)
  have nz: "\<forall>item \<in> set (mockResults (\<lambda>k. 1234)).
         \<not> ci_substring ''zzz'' (act_title item)
         \<and> \<not> ci_substring ''zzz'' (act_description item)"
    unfolding includes_lower_iff [symmetric] z
    by (simp add: mockResults_def mock_lowered)
  from searchActivity_filter [of "\<lambda>k. 1234" "''QueueCX''"] l
  have q: "searchActivity (\<lambda>k. 1234) ''QueueCX'' = [mockResults (\<lambda>k. 1234) ! 0]"
    by blast
  from searchActivity_filter [of "\<lambda>k. 1234" "''zzz''"] nz
  have "searchActivity (\<lambda>k. 1234) ''zzz'' = []"
    by blast
  moreover from nz have "\<not> ci_substring ''zzz'' ''QueueCX Integration Setup''"
    by (simp add: mockResults_def)
  ultimately show ?thesis
    using l i q by simp
qed

subsection \<open>The auth provider\<close>

lemmas mirror_defs = mount_def on_session_def updateUserProfile_start_def
  updateUserProfile_resume_def signIn_def signUp_def signOut_def unmount_def
  setUser_def setSession_def setLoading_def

lemma step_loading:
  assumes "\<not> demo_mode c" and "step c e s = Some s'"
  shows "m_loading s' = (m_loading s \<and> \<not> completes e)"
proof (cases e)
  case (SessionResolved ss)
  with assms show ?thesis
    by (cases ss) (auto simp: mirror_defs split: if_splits)
next
  case (AuthStateChange ss)
  with assms show ?thesis
    by (cases ss) (auto simp: mirror_defs split: if_splits)
qed (use assms in \<open>auto simp: mirror_defs Let_def split: if_splits\<close>)

lemma run_loading:
  assumes "\<not> demo_mode c" and "run c evs s = Some s'"
  shows "m_loading s' = (m_loading s \<and> \<not> list_ex completes evs)"
  using assms(2)
proof (induction evs arbitrary: s)
  case Nil
  then show ?case by simp
next
  case (Cons e evs)
  then obtain s1 where s1: "step c e s = Some s1" and rest: "run c evs s1 = Some s'"
    by (auto split: option.splits)
  from Cons.IH [OF rest] step_loading [OF assms(1) s1] show ?case
    by auto
qed

lemma fetchUserProfile_live:
  "\<not> demo_mode c \<Longrightarrow>
     fetchUserProfile c resp = (if fetch_succeeded resp then fr_data resp else None)"
  by (cases "fr_data resp")
     (auto simp: fetchUserProfile_def demo_mode_def fetch_succeeded_def split: option.splits)

lemma step_inv:
  assumes "mirror_inv c s" and "step c e s = Some s'"
  shows "mirror_inv c s'"
proof (cases e)
  case (Mount t1 t2)
  with assms show ?thesis
    by (auto simp: mirror_inv_def mirror_defs split: if_splits)
next
  case (SessionResolved ss)
  with assms show ?thesis
    by (cases ss) (auto simp: mirror_inv_def mirror_defs split: if_splits)
next
  case (AuthStateChange ss)
  with assms show ?thesis
    by (cases ss) (auto simp: mirror_inv_def mirror_defs split: if_splits)
next
  case (ProfileFetched k resp)
  with assms have live: "\<not> demo_mode c"
    by (auto simp: mirror_inv_def split: if_splits)
  with ProfileFetched assms show ?thesis
    by (auto simp: mirror_inv_def mirror_defs Let_def fetchUserProfile_live split: if_splits)
next
  case (SignIn email password err)
  with assms show ?thesis
    by (auto simp: mirror_inv_def mirror_defs split: if_splits)
next
  case (SignUp email password err)
  with assms show ?thesis
    by (auto simp: mirror_inv_def mirror_defs split: if_splits)
next
  case SignOut
  with assms show ?thesis
    by (auto simp: mirror_inv_def mirror_defs split: if_splits)
next
  case Unmount
  with assms show ?thesis
    by (auto simp: mirror_inv_def mirror_defs split: if_splits)
qed

lemma run_inv:
  assumes "mirror_inv c s" and "run c evs s = Some s'"
  shows "mirror_inv c s'"
  using assms
proof (induction evs arbitrary: s)
  case Nil
  then show ?case by simp
next
  case (Cons e evs)
  from Cons.prems(2) obtain s1 where s1: "step c e s = Some s1"
    and rest: "run c evs s1 = Some s'"
    by (auto split: option.splits)
  from step_inv [OF Cons.prems(1) s1] rest show ?case
    by (rule Cons.IH)
qed

lemma init_inv: "mirror_inv c init"
  by (simp add: mirror_inv_def init_def)

lemmas mirror_fixture_defs = live_config_def demo_config_def alice_session_def good_fetch_def
  failed_fetch_def alice_events_def alice_mirror_def early_events_def early_mirror_def
  demo_mirror_def orphan_events_def orphan_mirror_def init_def

text \<open>
  Claim C8, as amended. In configured mode \<open>loading\<close> starts true. After any sequence
  of events it is true exactly when no run of \<^verbatim>\<open>updateUserProfile\<close> has finished
  yet, so it becomes false once, when the first session resolution finishes (the initial
  one, or a session-change event when that one finishes first), and no sequence of later
  events makes it true again. A session-change event sets the session at once, keeps
  \<open>loading\<close> false when it was false, and either clears the identity (no session) or
  starts the profile fetch for the user of the session.
\<close>

theorem loading_cleared_once:
  assumes "\<not> demo_mode c" and "run c evs init = Some s"
  shows "m_loading init
       \<and> (m_loading s \<longleftrightarrow> \<not> list_ex completes evs)
       \<and> (\<forall>evs' s'. \<not> m_loading s \<and> run c evs' s = Some s' \<longrightarrow> \<not> m_loading s')
       \<and> (\<forall>ss s'. step c (AuthStateChange ss) s = Some s' \<longrightarrow>
             m_session s' = ss
             \<and> (\<not> m_loading s \<longrightarrow> \<not> m_loading s')
             \<and> (case ss of
                   None \<Rightarrow> m_user s' = None
                 | Some sess \<Rightarrow> fetching s' = fetching s @ [session_user sess]))"
proof (intro conjI allI impI)
  show "m_loading init"
    by (simp add: init_def)
  from run_loading [OF assms] show "m_loading s \<longleftrightarrow> \<not> list_ex completes evs"
    by (simp add: init_def)
next
  fix evs' s'
  assume "\<not> m_loading s \<and> run c evs' s = Some s'"
  with run_loading [OF assms(1), of evs' s s'] show "\<not> m_loading s'"
    by simp
next
  fix ss s'
  assume st: "step c (AuthStateChange ss) s = Some s'"
  then show "m_session s' = ss"
    by (cases ss) (auto simp: mirror_defs split: if_splits)
  from st show "case ss of
                   None \<Rightarrow> m_user s' = None
                 | Some sess \<Rightarrow> fetching s' = fetching s @ [session_user sess]"
    by (cases ss) (auto simp: mirror_defs split: if_splits)
  assume "\<not> m_loading s"
  with step_loading [OF assms(1) st] show "\<not> m_loading s'"
    by simp
qed

theorem loading_cleared_once_witness:
  "\<not> demo_mode live_config
   \<and> run live_config alice_events init = Some alice_mirror
   \<and> m_loading init
   \<and> list_ex completes alice_events
   \<and> \<not> m_loading alice_mirror
   \<and> step live_config (AuthStateChange None) alice_mirror =
       Some (alice_mirror\<lparr>m_user := None, m_session := None, m_origin := NoFetch\<rparr>)
   \<and> \<not> m_loading (alice_mirror\<lparr>m_user := None, m_session := None, m_origin := NoFetch\<rparr>)"
proof -
  have d: "\<not> demo_mode live_config"
    by (simp add: demo_mode_def live_config_def)
  have r: "run live_config alice_events init = Some alice_mirror"
    by (simp add: mirror_fixture_defs mirror_defs demo_mode_def fetchUserProfile_def)
  have st: "step live_config (AuthStateChange None) alice_mirror =
       Some (alice_mirror\<lparr>m_user := None, m_session := None, m_origin := NoFetch\<rparr>)"
    by (simp add: alice_mirror_def mirror_defs)
  from loading_cleared_once [OF d r] d r st show ?thesis
    by (simp add: alice_events_def)
qed

text \<open>
  Claim C8 as stated fails: \<open>loading\<close> can become false before the initial session
  resolution completes. After mount, a session-change event without a session clears
  \<open>loading\<close> while the initial \<^verbatim>\<open>getSession()\<close> is still outstanding.
\<close>

theorem loading_cleared_early_counterexample:
  "\<not> demo_mode live_config
   \<and> run live_config early_events init = Some early_mirror
   \<and> \<not> m_loading early_mirror
   \<and> pending_sessions early_mirror = 1"
  by (simp add: mirror_fixture_defs mirror_defs demo_mode_def)

text \<open>
  Claim C3, as amended. In every reachable state the mirrored identity is null or an
  identity object. An identity that was written after a profile fetch is written in
  configured mode only, is never null, and has its profile present exactly when that fetch
  succeeded; in configured mode every identity that is not null was written that way. When
  a profile fetch answers, the identity becomes the fetched user with the returned row as
  profile, or with no profile when the fetch failed. In unconfigured mode no fetch is
  made: mount writes the demo identity with its made-up profile, \<open>signIn\<close> and
  \<open>signUp\<close> write a local identity without profile, and \<open>signOut\<close> writes null.
\<close>

theorem identity_after_fetch:
  assumes "run c evs init = Some s"
  shows "(\<forall>resp. m_origin s = Fetch resp \<longrightarrow>
            \<not> demo_mode c
            \<and> (\<exists>i. m_user s = Some i
                   \<and> (id_profile i \<noteq> None \<longleftrightarrow> fetch_succeeded resp)))
       \<and> (\<not> demo_mode c \<and> m_user s \<noteq> None \<longrightarrow> (\<exists>resp. m_origin s = Fetch resp))
       \<and> (\<forall>k resp s'. step c (ProfileFetched k resp) s = Some s' \<longrightarrow>
             m_user s' = Some \<lparr>id_user = fetching s ! k,
                                id_profile = (if fetch_succeeded resp then fr_data resp
                                              else None)\<rparr>)
       \<and> (demo_mode c \<longrightarrow>
             (\<forall>t1 t2 s'. step c (Mount t1 t2) s = Some s' \<longrightarrow>
                 m_user s' = Some (demo_user t1 t2) \<and> m_origin s' = NoFetch)
             \<and> (\<forall>email password err.
                   m_user (snd (signIn c email password err s)) = Some (local_user email)
                   \<and> m_origin (snd (signIn c email password err s)) = NoFetch
                   \<and> m_user (snd (signUp c email password err s)) = Some (local_user email)
                   \<and> m_origin (snd (signUp c email password err s)) = NoFetch)
             \<and> m_user (signOut c s) = None)"
proof -
  from run_inv [OF init_inv assms] have inv: "mirror_inv c s" .
  show ?thesis
  proof (intro conjI allI impI)
    fix resp
    assume o: "m_origin s = Fetch resp"
    with inv show "\<not> demo_mode c"
      by (auto simp: mirror_inv_def)
    from inv o show "\<exists>i. m_user s = Some i \<and> (id_profile i \<noteq> None \<longleftrightarrow> fetch_succeeded resp)"
      by (auto simp: mirror_inv_def fetch_succeeded_def)
  next
    assume "\<not> demo_mode c \<and> m_user s \<noteq> None"
    with inv show "\<exists>resp. m_origin s = Fetch resp"
      by (cases "m_origin s") (auto simp: mirror_inv_def)
  next
    fix k resp s'
    assume st: "step c (ProfileFetched k resp) s = Some s'"
    with inv have "\<not> demo_mode c"
      by (auto simp: mirror_inv_def split: if_splits)
    with st show "m_user s' = Some \<lparr>id_user = fetching s ! k,
                                id_profile = (if fetch_succeeded resp then fr_data resp
                                              else None)\<rparr>"
      by (auto simp: mirror_defs Let_def fetchUserProfile_live split: if_splits)
  next
    fix t1 t2 s'
    assume "demo_mode c" and "step c (Mount t1 t2) s = Some s'"
    then show "m_user s' = Some (demo_user t1 t2)" and "m_origin s' = NoFetch"
      by (auto simp: mirror_defs split: if_splits)
  next
    fix email password err
    assume "demo_mode c"
    then show "m_user (snd (signIn c email password err s)) = Some (local_user email)"
      and "m_origin (snd (signIn c email password err s)) = NoFetch"
      and "m_user (snd (signUp c email password err s)) = Some (local_user email)"
      and "m_origin (snd (signUp c email password err s)) = NoFetch"
      by (simp_all add: mirror_defs)
  next
    assume "demo_mode c"
    then show "m_user (signOut c s) = None"
      by (simp add: mirror_defs)
  qed
qed

theorem identity_after_fetch_witness:
  "run live_config orphan_events init = Some orphan_mirror
   \<and> m_origin orphan_mirror = Fetch failed_fetch
   \<and> \<not> demo_mode live_config
   \<and> \<not> fetch_succeeded failed_fetch
   \<and> m_user orphan_mirror = Some \<lparr>id_user = alice, id_profile = None\<rparr>
   \<and> step live_config (ProfileFetched 0 good_fetch)
        (orphan_mirror\<lparr>fetching := [alice]\<rparr>) = Some alice_mirror
   \<and> fetch_succeeded good_fetch
   \<and> profile_present alice_mirror"
proof -
  have r: "run live_config orphan_events init = Some orphan_mirror"
    by (simp add: mirror_fixture_defs mirror_defs demo_mode_def fetchUserProfile_def)
  have st: "step live_config (ProfileFetched 0 good_fetch)
        (orphan_mirror\<lparr>fetching := [alice]\<rparr>) = Some alice_mirror"
    by (simp add: mirror_fixture_defs mirror_defs demo_mode_def fetchUserProfile_def)
  from identity_after_fetch [OF r] r st show ?thesis
    by (simp add: orphan_mirror_def alice_mirror_def fetch_succeeded_def failed_fetch_def
        good_fetch_def profile_present_def)
qed

text \<open>
  Claim C3 as stated fails in unconfigured mode: after mount the identity has a profile
  although no profile fetch has been made, so none has succeeded.
\<close>

theorem demo_profile_counterexample:
  "demo_mode demo_config
   \<and> run demo_config [Mount 1 2] init = Some demo_mirror
   \<and> profile_present demo_mirror
   \<and> m_origin demo_mirror = NoFetch"
  by (simp add: mirror_fixture_defs mirror_defs demo_mode_def profile_present_def demo_user_def)

end
